theory Spec2Isabelle
  imports Complex_Main "HOL-Library.AList"
begin

section \<open>Data model (src/types/index.ts)\<close>

text \<open>
  A TypeScript string is modelled as a \<^typ>\<open>string\<close> whose elements stand for the
  code units that \<^verbatim>\<open>.length\<close> counts. An optional field \<^verbatim>\<open>f?: string\<close> is a
  \<^typ>\<open>string option\<close>, with \<^const>\<open>None\<close> for \<^verbatim>\<open>undefined\<close>. The string enums
  \<^verbatim>\<open>LeadSource\<close> and \<^verbatim>\<open>LeadStatus\<close> are strings at run time, and the scorer
  compares them with string literals, so the fields \<^verbatim>\<open>source\<close> and \<^verbatim>\<open>status\<close>
  are strings here too. A \<^verbatim>\<open>number\<close> holding a price is a finite \<^typ>\<open>real\<close>
  (the store is a JSON file, which has neither NaN nor infinities); the score is
  an \<^typ>\<open>int\<close>. Sums of prices are exact in the first embedding of the scorer
  and rounded as doubles are in the second (section \<open>The scorer on IEEE doubles\<close>);
  the two differ only where a total lies within rounding of a threshold of the
  value term.
\<close>

record Lead =
  lead_id :: string
  lead_name :: string
  email :: string
  phone :: "string option"
  source :: string
  status :: string
  score :: int
  message :: "string option"
  wishlistId :: "string option"
  customerId :: "string option"
  utmSource :: "string option"
  utmMedium :: "string option"
  utmCampaign :: "string option"
  referrer :: "string option"
  ipAddress :: "string option"
  userAgent :: "string option"
  assignedTo :: "string option"
  createdAt :: string
  updatedAt :: string
  contactedAt :: "string option"
  convertedAt :: "string option"

record WishlistItem =
  item_id :: string
  item_wishlistId :: string
  productId :: string
  item_notes :: "string option"
  addedAt :: string

record Wishlist =
  wishlist_id :: string
  wishlist_name :: string
  wishlist_email :: "string option"
  wishlist_customerId :: "string option"
  shareToken :: string
  items :: "WishlistItem list"
  wishlist_createdAt :: string
  wishlist_updatedAt :: string

text \<open>
  Of the interface \<^verbatim>\<open>Product\<close> only \<^verbatim>\<open>id\<close> and \<^verbatim>\<open>price\<close> are read by the
  functions modelled below; its other fields are left out.
\<close>

record Product =
  product_id :: string
  price :: real

text \<open>
  The state of the store, as far as the modelled functions read it:
  \<^verbatim>\<open>db.getAll('products')\<close> is \<open>products db\<close> and \<^verbatim>\<open>db.getAll('leads')\<close> is
  \<open>leads db\<close>. The implementation of \<^verbatim>\<open>db\<close> (src/utils/database.ts) is not among
  the sources, so the two collections are parameters of every function that reads
  them.
\<close>

record Database =
  products :: "Product list"
  leads :: "Lead list"

text \<open>
  The enum \<^verbatim>\<open>LeadStatus\<close> as the object it is at run time: member names and their
  values. Reading a member is \<open>map_of LeadStatus name\<close>, which is \<^const>\<open>None\<close>
  (\<^verbatim>\<open>undefined\<close>) for a name the enum does not declare.
\<close>

definition LeadStatus :: "(string \<times> string) list" where
  "LeadStatus =
     [(''NEW'', ''NEW''),
      (''CONTACTED'', ''CONTACTED''),
      (''SCHEDULED'', ''SCHEDULED''),
      (''CONVERTED'', ''CONVERTED''),
      (''LOST'', ''LOST'')]"

section \<open>JavaScript truthiness of optional strings\<close>

text \<open>\<^verbatim>\<open>undefined\<close> and the empty string are falsy, every other string is truthy.\<close>

definition truthy :: "string option \<Rightarrow> bool" where
  "truthy v = (case v of None \<Rightarrow> False | Some s \<Rightarrow> s \<noteq> [])"

section \<open>The scorer (src/services/leadScoring.ts)\<close>

definition calculateLeadScore ::
  "Database \<Rightarrow> Lead \<Rightarrow> Wishlist option \<Rightarrow> string option \<Rightarrow> int" where
  "calculateLeadScore db lead wishlist customerId_arg =
     (let score = 0;
          \<comment> \<open>wishlist items count, then total wishlist value\<close>
          score =
            (case wishlist of
               None \<Rightarrow> score
             | Some w \<Rightarrow>
                 if length (items w) > 0 then
                   (let score = score + min (int (length (items w)) * 10) 40;
                        wishlistTotal =
                          foldl (\<lambda>total item.
                                   total +
                                   (case find (\<lambda>p. product_id p = productId item) (products db) of
                                      None \<Rightarrow> 0
                                    | Some product \<Rightarrow>
                                        if price product \<noteq> 0 then price product else 0))
                                0 (items w)
                    in if wishlistTotal \<ge> 10000 then score + 30
                       else if wishlistTotal \<ge> 5000 then score + 25
                       else if wishlistTotal \<ge> 2000 then score + 20
                       else if wishlistTotal \<ge> 1000 then score + 15
                       else if wishlistTotal \<ge> 500 then score + 10
                       else if wishlistTotal > 0 then score + 5
                       else score)
                 else score);
          \<comment> \<open>has phone number\<close>
          score = (if truthy (phone lead) then score + 10 else score);
          \<comment> \<open>has detailed message\<close>
          score =
            (if (case message lead of
                   None \<Rightarrow> False
                 | Some m \<Rightarrow> m \<noteq> [] \<and> length m > 20)
             then score + 10 else score);
          \<comment> \<open>came from the wishlist\<close>
          score = (if source lead = ''WISHLIST'' then score + 5 else score);
          \<comment> \<open>has UTM tracking\<close>
          score =
            (if truthy (utmSource lead) \<or> truthy (utmCampaign lead)
             then score + 5 else score);
          resolvedCustomerId =
            (if truthy customerId_arg then customerId_arg else customerId lead);
          \<comment> \<open>has customer account\<close>
          score = (if truthy resolvedCustomerId then score + 8 else score);
          \<comment> \<open>multiple leads from the same person\<close>
          score =
            (if truthy resolvedCustomerId \<or> email lead \<noteq> [] then
               (let allLeads = leads db;
                    siblingLeads =
                      filter (\<lambda>l. lead_id l \<noteq> lead_id lead \<and>
                                   ((truthy resolvedCustomerId \<and>
                                     customerId l = resolvedCustomerId) \<or>
                                    email l = email lead))
                             allLeads
                in if length siblingLeads > 0
                   then score + min (int (length siblingLeads) * 3) 7
                   else score)
             else score);
          \<comment> \<open>has a converted lead in history\<close>
          score =
            (if truthy resolvedCustomerId \<or> email lead \<noteq> [] then
               (let allLeads = leads db;
                    hasConverted =
                      list_ex (\<lambda>l. lead_id l \<noteq> lead_id lead \<and>
                                    status l = ''CONVERTED'' \<and>
                                    ((truthy resolvedCustomerId \<and>
                                      customerId l = resolvedCustomerId) \<or>
                                     email l = email lead))
                              allLeads
                in if hasConverted then score + 10 else score)
             else score)
      in min score 100)"

definition getLeadCategory :: "int \<Rightarrow> string" where
  "getLeadCategory s =
     (if s \<ge> 61 then ''Hot Lead''
      else if s \<ge> 31 then ''Warm Lead''
      else ''Cold Lead'')"

text \<open>
  The breakdown is a JavaScript object used as a dictionary. It is modelled as an
  association list in insertion order; the assignment \<^verbatim>\<open>breakdown[k] = v\<close> is
  \<^const>\<open>AList.update\<close>, which overwrites the entry of a key that is present and
  appends a new entry otherwise.
\<close>

definition getScoreBreakdown ::
  "Database \<Rightarrow> Lead \<Rightarrow> Wishlist option \<Rightarrow> (string \<times> int) list" where
  "getScoreBreakdown db lead wishlist =
     (let breakdown = [];
          breakdown =
            (case wishlist of
               None \<Rightarrow> breakdown
             | Some w \<Rightarrow>
                 if length (items w) > 0 then
                   (let breakdown =
                          AList.update ''Wishlist Items''
                            (min (int (length (items w)) * 10) 40) breakdown;
                        wishlistTotal =
                          foldl (\<lambda>total item.
                                   total +
                                   (case find (\<lambda>p. product_id p = productId item) (products db) of
                                      None \<Rightarrow> 0
                                    | Some product \<Rightarrow>
                                        if price product \<noteq> 0 then price product else 0))
                                0 (items w)
                    in if wishlistTotal \<ge> 10000
                         then AList.update ''High Value Wishlist'' 30 breakdown
                       else if wishlistTotal \<ge> 5000
                         then AList.update ''High Value Wishlist'' 25 breakdown
                       else if wishlistTotal \<ge> 2000
                         then AList.update ''Medium Value Wishlist'' 20 breakdown
                       else if wishlistTotal \<ge> 1000
                         then AList.update ''Medium Value Wishlist'' 15 breakdown
                       else if wishlistTotal \<ge> 500
                         then AList.update ''Low Value Wishlist'' 10 breakdown
                       else if wishlistTotal > 0
                         then AList.update ''Low Value Wishlist'' 5 breakdown
                       else breakdown)
                 else breakdown);
          breakdown =
            (if truthy (phone lead)
             then AList.update ''Phone Provided'' 10 breakdown else breakdown);
          breakdown =
            (if (case message lead of
                   None \<Rightarrow> False
                 | Some m \<Rightarrow> m \<noteq> [] \<and> length m > 20)
             then AList.update ''Detailed Message'' 10 breakdown else breakdown);
          breakdown =
            (if source lead = ''WISHLIST''
             then AList.update ''Wishlist Submission'' 5 breakdown else breakdown);
          breakdown =
            (if truthy (utmSource lead) \<or> truthy (utmCampaign lead)
             then AList.update ''Tracked Campaign'' 5 breakdown else breakdown);
          \<comment> \<open>customer account bonuses\<close>
          resolvedCustomerId = customerId lead;
          breakdown =
            (if truthy resolvedCustomerId
             then AList.update ''Customer Account'' 8 breakdown else breakdown)
      in if truthy resolvedCustomerId \<or> email lead \<noteq> [] then
           (let allLeads = leads db;
                siblingCount =
                  length
                    (filter (\<lambda>l. lead_id l \<noteq> lead_id lead \<and>
                                  ((truthy resolvedCustomerId \<and>
                                    customerId l = resolvedCustomerId) \<or>
                                   email l = email lead))
                            allLeads);
                breakdown =
                  (if siblingCount > 0
                   then AList.update ''Repeat Customer''
                          (min (int siblingCount * 3) 7) breakdown
                   else breakdown);
                hasConverted =
                  list_ex (\<lambda>l. lead_id l \<noteq> lead_id lead \<and>
                                status l = ''CONVERTED'' \<and>
                                ((truthy resolvedCustomerId \<and>
                                  customerId l = resolvedCustomerId) \<or>
                                 email l = email lead))
                          allLeads
            in if hasConverted
               then AList.update ''Previous Conversion'' 10 breakdown
               else breakdown)
         else breakdown)"

text \<open>The sum of the values of a breakdown.\<close>

definition sum_values :: "(string \<times> int) list \<Rightarrow> int" where
  "sum_values breakdown = sum_list (map snd breakdown)"

section \<open>The terms of the score\<close>

text \<open>
  Each definition below is one block of \<^verbatim>\<open>calculateLeadScore\<close>: the amount that
  the block adds to the running score. Lemma \<open>calculateLeadScore_terms\<close> shows that
  the scorer returns their sum, capped at 100. \<open>wishlistTotal\<close> and \<open>valueTerm\<close>
  are in exact arithmetic, as the first embedding of the scorer is.
\<close>

definition resolvedPrice :: "Product list \<Rightarrow> WishlistItem \<Rightarrow> real" where
  \<comment> \<open>\<^verbatim>\<open>product?.price || 0\<close> for the first product with the item's product id\<close>
  "resolvedPrice ps item =
     (case find (\<lambda>p. product_id p = productId item) ps of
        None \<Rightarrow> 0
      | Some product \<Rightarrow> if price product \<noteq> 0 then price product else 0)"

definition wishlistTotal :: "Product list \<Rightarrow> WishlistItem list \<Rightarrow> real" where
  "wishlistTotal ps its = foldl (\<lambda>total item. total + resolvedPrice ps item) 0 its"

definition itemCountTerm :: "Wishlist option \<Rightarrow> int" where
  "itemCountTerm wishlist =
     (case wishlist of
        None \<Rightarrow> 0
      | Some w \<Rightarrow>
          if length (items w) > 0 then min (int (length (items w)) * 10) 40 else 0)"

definition valueTerm :: "Database \<Rightarrow> Wishlist option \<Rightarrow> int" where
  "valueTerm db wishlist =
     (case wishlist of
        None \<Rightarrow> 0
      | Some w \<Rightarrow>
          if length (items w) > 0 then
            (let total = wishlistTotal (products db) (items w)
             in if total \<ge> 10000 then 30
                else if total \<ge> 5000 then 25
                else if total \<ge> 2000 then 20
                else if total \<ge> 1000 then 15
                else if total \<ge> 500 then 10
                else if total > 0 then 5
                else 0)
          else 0)"

definition phoneTerm :: "Lead \<Rightarrow> int" where
  "phoneTerm lead = (if truthy (phone lead) then 10 else 0)"

definition messageTerm :: "Lead \<Rightarrow> int" where
  "messageTerm lead =
     (if (case message lead of None \<Rightarrow> False | Some m \<Rightarrow> m \<noteq> [] \<and> length m > 20)
      then 10 else 0)"

definition sourceTerm :: "Lead \<Rightarrow> int" where
  "sourceTerm lead = (if source lead = ''WISHLIST'' then 5 else 0)"

definition utmTerm :: "Lead \<Rightarrow> int" where
  "utmTerm lead = (if truthy (utmSource lead) \<or> truthy (utmCampaign lead) then 5 else 0)"

definition resolveCustomerId :: "string option \<Rightarrow> Lead \<Rightarrow> string option" where
  \<comment> \<open>\<^verbatim>\<open>customerId || lead.customerId\<close>\<close>
  "resolveCustomerId customerId_arg lead =
     (if truthy customerId_arg then customerId_arg else customerId lead)"

definition accountTerm :: "string option \<Rightarrow> int" where
  "accountTerm rid = (if truthy rid then 8 else 0)"

definition repeatTerm :: "Database \<Rightarrow> Lead \<Rightarrow> string option \<Rightarrow> int" where
  "repeatTerm db lead rid =
     (if truthy rid \<or> email lead \<noteq> [] then
        (let siblingLeads =
               filter (\<lambda>l. lead_id l \<noteq> lead_id lead \<and>
                            ((truthy rid \<and> customerId l = rid) \<or> email l = email lead))
                      (leads db)
         in if length siblingLeads > 0 then min (int (length siblingLeads) * 3) 7 else 0)
      else 0)"

definition conversionTerm :: "Database \<Rightarrow> Lead \<Rightarrow> string option \<Rightarrow> int" where
  "conversionTerm db lead rid =
     (if truthy rid \<or> email lead \<noteq> [] then
        (if list_ex (\<lambda>l. lead_id l \<noteq> lead_id lead \<and> status l = ''CONVERTED'' \<and>
                          ((truthy rid \<and> customerId l = rid) \<or> email l = email lead))
                    (leads db)
         then 10 else 0)
      else 0)"

definition termsTotal :: "Database \<Rightarrow> Lead \<Rightarrow> Wishlist option \<Rightarrow> string option \<Rightarrow> int" where
  "termsTotal db lead wishlist customerId_arg =
     itemCountTerm wishlist + valueTerm db wishlist + phoneTerm lead + messageTerm lead +
     sourceTerm lead + utmTerm lead +
     accountTerm (resolveCustomerId customerId_arg lead) +
     repeatTerm db lead (resolveCustomerId customerId_arg lead) +
     conversionTerm db lead (resolveCustomerId customerId_arg lead)"

text \<open>
  The wishlist total as the claims word it: the sum, over the items, of the price
  of the product that the item resolves to, where an item whose product is missing
  contributes 0.
\<close>

definition spec_wishlistTotal :: "Product list \<Rightarrow> WishlistItem list \<Rightarrow> real" where
  "spec_wishlistTotal ps its =
     sum_list (map (\<lambda>item. case find (\<lambda>p. product_id p = productId item) ps of
                              None \<Rightarrow> 0
                            | Some product \<Rightarrow> price product) its)"

section \<open>The scorer on IEEE doubles\<close>

text \<open>
  A JavaScript \<^verbatim>\<open>number\<close> is an IEEE 754 double: a finite value, an infinity or
  NaN. The sum of two finite doubles is their exact sum rounded to a double, which
  may be an infinity. The rounding is the parameter \<open>rnd\<close> of the definitions of
  this section, so that what is proved of them holds for the rounding of the
  machine, whatever it does to a sum; \<open>rnd = Num\<close> is exact arithmetic. The
  comparisons with the thresholds are those of IEEE 754: a NaN compares false.
\<close>

datatype jsnum = Num real | PosInf | NegInf | NaN

fun js_add :: "(real \<Rightarrow> jsnum) \<Rightarrow> jsnum \<Rightarrow> jsnum \<Rightarrow> jsnum" where
  "js_add rnd (Num a) (Num b) = rnd (a + b)"
| "js_add rnd NaN y = NaN"
| "js_add rnd x NaN = NaN"
| "js_add rnd PosInf NegInf = NaN"
| "js_add rnd NegInf PosInf = NaN"
| "js_add rnd PosInf y = PosInf"
| "js_add rnd x PosInf = PosInf"
| "js_add rnd NegInf y = NegInf"
| "js_add rnd x NegInf = NegInf"

fun js_ge :: "jsnum \<Rightarrow> real \<Rightarrow> bool" where
  "js_ge (Num a) c = (a \<ge> c)"
| "js_ge PosInf c = True"
| "js_ge NegInf c = False"
| "js_ge NaN c = False"

fun js_gt :: "jsnum \<Rightarrow> real \<Rightarrow> bool" where
  "js_gt (Num a) c = (a > c)"
| "js_gt PosInf c = True"
| "js_gt NegInf c = False"
| "js_gt NaN c = False"

text \<open>
  \<^verbatim>\<open>calculateLeadScore\<close> once more, line by line, with the total of the wishlist
  computed in doubles. Lemma \<open>calculateLeadScore_fp_exact\<close> shows that
  \<open>calculateLeadScore\<close> above is this function for exact arithmetic.
\<close>

definition calculateLeadScore_fp ::
  "(real \<Rightarrow> jsnum) \<Rightarrow> Database \<Rightarrow> Lead \<Rightarrow> Wishlist option \<Rightarrow> string option \<Rightarrow> int" where
  "calculateLeadScore_fp rnd db lead wishlist customerId_arg =
     (let score = 0;
          score =
            (case wishlist of
               None \<Rightarrow> score
             | Some w \<Rightarrow>
                 if length (items w) > 0 then
                   (let score = score + min (int (length (items w)) * 10) 40;
                        wishlistTotal =
                          foldl (\<lambda>total item.
                                   js_add rnd total
                                   (case find (\<lambda>p. product_id p = productId item) (products db) of
                                      None \<Rightarrow> Num 0
                                    | Some product \<Rightarrow>
                                        if price product \<noteq> 0 then Num (price product)
                                        else Num 0))
                                (Num 0) (items w)
                    in if js_ge wishlistTotal 10000 then score + 30
                       else if js_ge wishlistTotal 5000 then score + 25
                       else if js_ge wishlistTotal 2000 then score + 20
                       else if js_ge wishlistTotal 1000 then score + 15
                       else if js_ge wishlistTotal 500 then score + 10
                       else if js_gt wishlistTotal 0 then score + 5
                       else score)
                 else score);
          score = (if truthy (phone lead) then score + 10 else score);
          score =
            (if (case message lead of
                   None \<Rightarrow> False
                 | Some m \<Rightarrow> m \<noteq> [] \<and> length m > 20)
             then score + 10 else score);
          score = (if source lead = ''WISHLIST'' then score + 5 else score);
          score =
            (if truthy (utmSource lead) \<or> truthy (utmCampaign lead)
             then score + 5 else score);
          resolvedCustomerId =
            (if truthy customerId_arg then customerId_arg else customerId lead);
          score = (if truthy resolvedCustomerId then score + 8 else score);
          score =
            (if truthy resolvedCustomerId \<or> email lead \<noteq> [] then
               (let allLeads = leads db;
                    siblingLeads =
                      filter (\<lambda>l. lead_id l \<noteq> lead_id lead \<and>
                                   ((truthy resolvedCustomerId \<and>
                                     customerId l = resolvedCustomerId) \<or>
                                    email l = email lead))
                             allLeads
                in if length siblingLeads > 0
                   then score + min (int (length siblingLeads) * 3) 7
                   else score)
             else score);
          score =
            (if truthy resolvedCustomerId \<or> email lead \<noteq> [] then
               (let allLeads = leads db;
                    hasConverted =
                      list_ex (\<lambda>l. lead_id l \<noteq> lead_id lead \<and>
                                    status l = ''CONVERTED'' \<and>
                                    ((truthy resolvedCustomerId \<and>
                                      customerId l = resolvedCustomerId) \<or>
                                     email l = email lead))
                              allLeads
                in if hasConverted then score + 10 else score)
             else score)
      in min score 100)"

text \<open>
  The total as the claims word it: the resolved prices of the items, a missing
  product counting 0, summed from 0 in the order of the items with the addition of
  doubles.
\<close>

definition spec_summedPrices :: "(real \<Rightarrow> jsnum) \<Rightarrow> Product list \<Rightarrow> WishlistItem list \<Rightarrow> jsnum" where
  "spec_summedPrices rnd ps its =
     foldl (js_add rnd) (Num 0)
       (map (\<lambda>item. case find (\<lambda>p. product_id p = productId item) ps of
                       None \<Rightarrow> Num 0
                     | Some product \<Rightarrow> Num (price product)) its)"

text \<open>
  The step function as the claims word it, on a total that is a double: 30 from
  10000 on, otherwise 25 from 5000, 20 from 2000, 15 from 1000, 10 from 500, 5 for
  any other total above 0, and 0 for the rest (a total that is not above 0, or NaN).
\<close>

definition spec_valueStep :: "jsnum \<Rightarrow> int" where
  "spec_valueStep tot =
     (case tot of
        Num t \<Rightarrow>
          if 10000 \<le> t then 30
          else if 5000 \<le> t then 25
          else if 2000 \<le> t then 20
          else if 1000 \<le> t then 15
          else if 500 \<le> t then 10
          else if 0 < t then 5
          else 0
      | PosInf \<Rightarrow> 30
      | NegInf \<Rightarrow> 0
      | NaN \<Rightarrow> 0)"

section \<open>Guarded assignments\<close>

text \<open>
  Every statement of \<^verbatim>\<open>getScoreBreakdown\<close> is an assignment to one key under a
  condition. \<open>put_if\<close> names that shape, and \<open>tracks b n K\<close> says that the values
  of \<open>b\<close> sum to \<open>n\<close> and that its keys are among \<open>K\<close>; both are used only to
  reason about the breakdown.
\<close>

definition put_if ::
  "bool \<Rightarrow> string \<Rightarrow> int \<Rightarrow> (string \<times> int) list \<Rightarrow> (string \<times> int) list" where
  "put_if c k v b = (if c then AList.update k v b else b)"

definition tracks :: "(string \<times> int) list \<Rightarrow> int \<Rightarrow> string set \<Rightarrow> bool" where
  "tracks b n K \<longleftrightarrow> sum_values b = n \<and> fst ` set b \<subseteq> K"

section \<open>The admin lead routes (src/unnamed/part_008)\<close>

subsection \<open>GET /stats\<close>

text \<open>
  The counts of the statistics object. A comparison \<^verbatim>\<open>l.status === LeadStatus.X\<close>
  reads the member \<open>X\<close> of the enum object and compares the lead's status with
  what it finds; \<^verbatim>\<open>===\<close> between a string and \<^verbatim>\<open>undefined\<close> is false. The average
  score and the count of the last 30 days, which depend on floating-point division
  and on the clock, are left out.
\<close>

record LeadStats =
  stats_total :: nat
  stats_new :: nat
  stats_contacted :: nat
  stats_qualified :: nat
  stats_scheduled :: nat
  stats_converted :: nat
  stats_lost :: nat
  stats_hot :: nat
  stats_warm :: nat
  stats_cold :: nat

definition leadStats :: "Lead list \<Rightarrow> LeadStats" where
  "leadStats ls =
     \<lparr> stats_total = length ls,
       stats_new = length (filter (\<lambda>l. Some (status l) = map_of LeadStatus ''NEW'') ls),
       stats_contacted =
         length (filter (\<lambda>l. Some (status l) = map_of LeadStatus ''CONTACTED'') ls),
       stats_qualified =
         length (filter (\<lambda>l. Some (status l) = map_of LeadStatus ''QUALIFIED'') ls),
       stats_scheduled =
         length (filter (\<lambda>l. Some (status l) = map_of LeadStatus ''SCHEDULED'') ls),
       stats_converted =
         length (filter (\<lambda>l. Some (status l) = map_of LeadStatus ''CONVERTED'') ls),
       stats_lost = length (filter (\<lambda>l. Some (status l) = map_of LeadStatus ''LOST'') ls),
       stats_hot = length (filter (\<lambda>l. score l \<ge> 61) ls),
       stats_warm = length (filter (\<lambda>l. score l \<ge> 31 \<and> score l < 61) ls),
       stats_cold = length (filter (\<lambda>l. score l < 31) ls) \<rparr>"

subsection \<open>The store (src/utils/database.ts, in src/unnamed/part_001)\<close>

text \<open>
  The store is a JSON file, and \<^verbatim>\<open>db.getById\<close> and \<^verbatim>\<open>db.update\<close> treat the
  records of a collection as objects of any shape (\<^verbatim>\<open>any[]\<close>). A record is
  therefore a map from property names to JSON values, and so is the body of a
  request. A failure to read or write the file, which the handler answers with
  status 500, is not modelled.
\<close>

datatype json =
  JNull | JBool bool | JNum real | JStr string | JArr "json list" | JObj "(string \<times> json) list"

type_synonym obj = "string \<rightharpoonup> json"

definition db_getById :: "obj list \<Rightarrow> string \<Rightarrow> obj option" where
  \<comment> \<open>\<^verbatim>\<open>items.find((item) => item.id === id)\<close>\<close>
  "db_getById its i = find (\<lambda>item. item ''id'' = Some (JStr i)) its"

fun findIndex :: "('a \<Rightarrow> bool) \<Rightarrow> 'a list \<Rightarrow> nat option" where
  \<comment> \<open>\<^verbatim>\<open>Array.prototype.findIndex\<close>, with \<^const>\<open>None\<close> for -1\<close>
  "findIndex P [] = None"
| "findIndex P (x # xs) = (if P x then Some 0 else map_option Suc (findIndex P xs))"

text \<open>
  \<^verbatim>\<open>db.update\<close>: the record becomes
  \<^verbatim>\<open>{ ...items[index], ...updates, updatedAt: new Date().toISOString() }\<close>, that is,
  every property of \<open>updates\<close> is written over the record and \<open>updatedAt\<close> is
  stamped with the time \<open>now\<close> of the call. The result is the collection as
  written back and the record returned (\<^const>\<open>None\<close> for \<^verbatim>\<open>null\<close>).
\<close>

definition db_update :: "string \<Rightarrow> obj list \<Rightarrow> string \<Rightarrow> obj \<Rightarrow> obj list \<times> obj option" where
  "db_update now its i updates =
     (case findIndex (\<lambda>item. item ''id'' = Some (JStr i)) its of
        None \<Rightarrow> (its, None)
      | Some index \<Rightarrow>
          (let its' = its[index := ((its ! index) ++ updates)(''updatedAt'' \<mapsto> JStr now)]
           in (its', Some (its' ! index))))"

subsection \<open>PUT /:id\<close>



text \<open>
  The handler, from \<^verbatim>\<open>const updates = req.body\<close> on: \<open>updates\<close> is the body as the
  handler receives it. The middleware \<^verbatim>\<open>validate(updateLeadSchema)\<close> that runs
  before it (src/middleware/validation.ts) is not among the sources; whether it
  hands on the body as sent or only the properties of the schema is therefore left
  open, and the handler is defined for every body. A missing lead gives status 404;
  otherwise the lead is updated in the store and returned. The result is the new
  collection of leads and the response.
\<close>

datatype http_error = NotFound

definition put_lead ::
  "string \<Rightarrow> obj list \<Rightarrow> string \<Rightarrow> obj \<Rightarrow> obj list \<times> (http_error + obj option)" where
  "put_lead now ls i updates =
     (case db_getById ls i of
        None \<Rightarrow> (ls, Inl NotFound)
      | Some existingLead \<Rightarrow>
          (let (ls', updatedLead) = db_update now ls i updates
           in (ls', Inr updatedLead)))"

section \<open>Example data\<close>

definition ex_lead :: Lead where
  "ex_lead =
     \<lparr> lead_id = ''lead-1'', lead_name = ''Ann Brown'', email = ''ann@example.com'',
       phone = Some ''+1-876-5550100'', source = ''WISHLIST'', status = ''NEW'', score = 0,
       message = Some ''I would like these rings.'', wishlistId = Some ''w-1'',
       customerId = None, utmSource = None, utmMedium = None, utmCampaign = None,
       referrer = None, ipAddress = None, userAgent = None, assignedTo = None,
       createdAt = ''2024-01-01T00:00:00.000Z'', updatedAt = ''2024-01-01T00:00:00.000Z'',
       contactedAt = None, convertedAt = None \<rparr>"

definition ex_sibling :: "string \<Rightarrow> string \<Rightarrow> string option \<Rightarrow> string \<Rightarrow> Lead" where
  "ex_sibling i e c st =
     \<lparr> lead_id = i, lead_name = ''Ann Brown'', email = e,
       phone = None, source = ''WEBSITE'', status = st, score = 10,
       message = None, wishlistId = None,
       customerId = c, utmSource = None, utmMedium = None, utmCampaign = None,
       referrer = None, ipAddress = None, userAgent = None, assignedTo = None,
       createdAt = ''2023-06-01T00:00:00.000Z'', updatedAt = ''2023-06-01T00:00:00.000Z'',
       contactedAt = None, convertedAt = None \<rparr>"

definition ex_item :: "string \<Rightarrow> WishlistItem" where
  "ex_item pid =
     \<lparr> item_id = ''i-'' @ pid, item_wishlistId = ''w-1'', productId = pid,
       item_notes = None, addedAt = ''2024-01-01T00:00:00.000Z'' \<rparr>"

definition ex_wishlist :: "string list \<Rightarrow> Wishlist" where
  "ex_wishlist pids =
     \<lparr> wishlist_id = ''w-1'', wishlist_name = ''My wishlist'', wishlist_email = None,
       wishlist_customerId = None, shareToken = ''tok'', items = map ex_item pids,
       wishlist_createdAt = ''2024-01-01T00:00:00.000Z'',
       wishlist_updatedAt = ''2024-01-01T00:00:00.000Z'' \<rparr>"

definition ex_products :: "Product list" where
  "ex_products =
     [\<lparr> product_id = ''p250'', price = 250 \<rparr>,
      \<lparr> product_id = ''p400'', price = 400 \<rparr>,
      \<lparr> product_id = ''p600'', price = 600 \<rparr>,
      \<lparr> product_id = ''p1200'', price = 1200 \<rparr>,
      \<lparr> product_id = ''p3000'', price = 3000 \<rparr>,
      \<lparr> product_id = ''p6000'', price = 6000 \<rparr>,
      \<lparr> product_id = ''p50000'', price = 50000 \<rparr>]"

definition ex_leads :: "Lead list" where
  "ex_leads =
     [ex_sibling ''lead-2'' ''ann.b@example.com'' (Some ''cust-1'') ''CONVERTED'',
      ex_sibling ''lead-3'' ''a.brown@example.com'' (Some ''cust-1'') ''CONTACTED'',
      ex_sibling ''lead-4'' ''bob@example.com'' None ''NEW'']"

definition ex_db :: Database where
  "ex_db = \<lparr> products = ex_products, leads = ex_leads \<rparr>"

text \<open>
  A logged-in customer who arrives from a campaign with four expensive items: every
  term but the two that need other leads is triggered.
\<close>

definition cx_lead :: Lead where
  "cx_lead = ex_lead\<lparr>utmSource := Some ''newsletter'', customerId := Some ''cust-9''\<rparr>"

definition cx_wishlist :: Wishlist where
  "cx_wishlist = ex_wishlist [''p3000'', ''p3000'', ''p3000'', ''p3000'']"

definition cx_db :: Database where
  "cx_db = \<lparr> products = ex_products, leads = [] \<rparr>"





section \<open>The scorer is the capped sum of its terms\<close>

lemma if_add_then: "(if c then (s::int) + a else s) = s + (if c then a else 0)"
  by simp

lemma if_add_both: "(if c then (s::int) + a else s + b) = s + (if c then a else b)"
  by simp

lemma if_add_same: "(if c then (a::int) else 0) + (if c then b else 0) = (if c then a + b else 0)"
  by simp

lemma truthy_None: "truthy None = False"
  by (simp add: truthy_def)

lemmas term_defs = termsTotal_def itemCountTerm_def valueTerm_def phoneTerm_def
  messageTerm_def sourceTerm_def utmTerm_def accountTerm_def repeatTerm_def
  conversionTerm_def resolveCustomerId_def wishlistTotal_def resolvedPrice_def

lemma calculateLeadScore_terms:
  "calculateLeadScore db lead wishlist cid = min (termsTotal db lead wishlist cid) 100"
  unfolding calculateLeadScore_def term_defs
  by (cases wishlist)
     (simp_all add: Let_def if_add_then if_add_both if_add_same
        split del: if_split cong: if_cong)

lemma itemCountTerm_bounds: "0 \<le> itemCountTerm w \<and> itemCountTerm w \<le> 40"
  by (simp add: itemCountTerm_def split: option.split)

lemma valueTerm_bounds: "0 \<le> valueTerm db w \<and> valueTerm db w \<le> 30"
  by (simp add: valueTerm_def Let_def split: option.split)

lemma repeatTerm_bounds: "0 \<le> repeatTerm db lead rid \<and> repeatTerm db lead rid \<le> 7"
  by (simp add: repeatTerm_def Let_def)

lemma termsTotal_nonneg: "0 \<le> termsTotal db lead w cid"
proof -
  have "0 \<le> phoneTerm lead" "0 \<le> messageTerm lead" "0 \<le> sourceTerm lead"
    "0 \<le> utmTerm lead" "0 \<le> accountTerm (resolveCustomerId cid lead)"
    "0 \<le> conversionTerm db lead (resolveCustomerId cid lead)"
    by (simp_all add: phoneTerm_def messageTerm_def sourceTerm_def utmTerm_def
        accountTerm_def conversionTerm_def)
  with itemCountTerm_bounds [of w] valueTerm_bounds [of db w]
    repeatTerm_bounds [of db lead "resolveCustomerId cid lead"]
  show ?thesis unfolding termsTotal_def by linarith
qed

lemmas ex_defs = ex_db_def ex_products_def ex_leads_def ex_sibling_def ex_lead_def
  ex_wishlist_def ex_item_def

lemma ex_total:
  "spec_wishlistTotal (products ex_db) (items (ex_wishlist [''p50000''])) = 50000"
  "spec_wishlistTotal (products ex_db) (items (ex_wishlist [''p6000''])) = 6000"
  "spec_wishlistTotal (products ex_db) (items (ex_wishlist [''p3000''])) = 3000"
  "spec_wishlistTotal (products ex_db) (items (ex_wishlist [''p1200''])) = 1200"
  "spec_wishlistTotal (products ex_db) (items (ex_wishlist [''p600''])) = 600"
  "spec_wishlistTotal (products ex_db) (items (ex_wishlist [''p250''])) = 250"
  "spec_wishlistTotal (products ex_db) (items (ex_wishlist [''gone''])) = 0"
  "spec_wishlistTotal (products ex_db) (items (ex_wishlist [''p400'', ''p400'', ''p400''])) = 1200"
  by (simp_all add: spec_wishlistTotal_def ex_defs)

lemma cx_total: "termsTotal cx_db cx_lead (Some cx_wishlist) None = 108"
  by (simp add: term_defs Let_def truthy_def cx_lead_def cx_wishlist_def cx_db_def
      ex_lead_def ex_wishlist_def ex_item_def ex_products_def)

text \<open>
  C1: for every lead, every optional wishlist, every optional customer id argument
  and every state of the product and lead collections, the result of
  \<open>calculateLeadScore\<close> is at least 0 and at most 100.
\<close>

theorem calculateLeadScore_range:
  "0 \<le> calculateLeadScore db lead wishlist customerId_arg \<and>
   calculateLeadScore db lead wishlist customerId_arg \<le> 100"
  using termsTotal_nonneg [of db lead wishlist customerId_arg]
  by (simp add: calculateLeadScore_terms)

theorem calculateLeadScore_range_witness:
  "0 \<le> calculateLeadScore cx_db cx_lead (Some cx_wishlist) None \<and>
   calculateLeadScore cx_db cx_lead (Some cx_wishlist) None \<le> 100 \<and>
   termsTotal cx_db cx_lead (Some cx_wishlist) None = 108"
  using calculateLeadScore_range [of cx_db cx_lead "Some cx_wishlist" None] cx_total
  by blast

section \<open>The score without a wishlist and without a customer\<close>

lemma leadTerms_bounds:
  "0 \<le> phoneTerm lead \<and> phoneTerm lead \<le> 10"
  "0 \<le> messageTerm lead \<and> messageTerm lead \<le> 10"
  "0 \<le> sourceTerm lead \<and> sourceTerm lead \<le> 5"
  "0 \<le> utmTerm lead \<and> utmTerm lead \<le> 5"
  "0 \<le> accountTerm rid \<and> accountTerm rid \<le> 8"
  "0 \<le> conversionTerm db lead rid \<and> conversionTerm db lead rid \<le> 10"
  by (simp_all add: phoneTerm_def messageTerm_def sourceTerm_def utmTerm_def
      accountTerm_def conversionTerm_def)

lemma valueTerm_leads: "valueTerm (db\<lparr>leads := ls\<rparr>) wishlist = valueTerm db wishlist"
  by (cases wishlist) (simp_all add: valueTerm_def)

lemma repeatTerm_status:
  "repeatTerm (db\<lparr>leads := map (\<lambda>l. l\<lparr>status := st\<rparr>) (leads db)\<rparr>) lead rid =
   repeatTerm db lead rid"
  by (simp add: repeatTerm_def Let_def filter_map comp_def)

text \<open>Without a wishlist the cap is never reached: the lead terms add up to 55 at most.\<close>

lemma calculateLeadScore_None:
  "calculateLeadScore db lead None cid =
     phoneTerm lead + messageTerm lead + sourceTerm lead + utmTerm lead +
     accountTerm (resolveCustomerId cid lead) +
     repeatTerm db lead (resolveCustomerId cid lead) +
     conversionTerm db lead (resolveCustomerId cid lead)"
proof -
  have "itemCountTerm None = 0" "valueTerm db None = 0"
    by (simp_all add: itemCountTerm_def valueTerm_def)
  with leadTerms_bounds(1-4) [of lead]
    leadTerms_bounds(5) [of "resolveCustomerId cid lead"]
    leadTerms_bounds(6) [of db lead "resolveCustomerId cid lead"]
    repeatTerm_bounds [of db lead "resolveCustomerId cid lead"]
  show ?thesis
    unfolding calculateLeadScore_terms termsTotal_def by linarith
qed

text \<open>
  Without a customer and without other leads the cap is not reached either: the
  wishlist and contact terms add up to 100 at most.
\<close>

lemma calculateLeadScore_anonymous:
  "calculateLeadScore (db\<lparr>leads := []\<rparr>) (lead\<lparr>customerId := None\<rparr>) wishlist None =
     itemCountTerm wishlist + valueTerm db wishlist + phoneTerm lead + messageTerm lead +
     sourceTerm lead + utmTerm lead"
proof -
  have r: "resolveCustomerId None (lead\<lparr>customerId := None\<rparr>) = None"
    by (simp add: resolveCustomerId_def truthy_None)
  have z: "accountTerm None = 0"
    "repeatTerm (db\<lparr>leads := []\<rparr>) (lead\<lparr>customerId := None\<rparr>) None = 0"
    "conversionTerm (db\<lparr>leads := []\<rparr>) (lead\<lparr>customerId := None\<rparr>) None = 0"
    by (simp_all add: accountTerm_def repeatTerm_def conversionTerm_def truthy_None)
  have s: "phoneTerm (lead\<lparr>customerId := None\<rparr>) = phoneTerm lead"
    "messageTerm (lead\<lparr>customerId := None\<rparr>) = messageTerm lead"
    "sourceTerm (lead\<lparr>customerId := None\<rparr>) = sourceTerm lead"
    "utmTerm (lead\<lparr>customerId := None\<rparr>) = utmTerm lead"
    by (simp_all add: phoneTerm_def messageTerm_def sourceTerm_def utmTerm_def)
  note s = s valueTerm_leads [where ls = "[]"]
  from leadTerms_bounds(1-4) [of lead] itemCountTerm_bounds [of wishlist]
    valueTerm_bounds [of db wishlist]
  show ?thesis
    unfolding calculateLeadScore_terms termsTotal_def r z s by linarith
qed

section \<open>The wishlist terms\<close>

lemma foldl_add_sum_list:
  "foldl (\<lambda>total item. total + f item) (a::real) its = a + sum_list (map f its)"
  by (induction its arbitrary: a) simp_all

lemma resolvedPrice_spec:
  "resolvedPrice ps item =
     (case find (\<lambda>p. product_id p = productId item) ps of
        None \<Rightarrow> 0 | Some product \<Rightarrow> price product)"
  by (simp add: resolvedPrice_def split: option.split)

lemma wishlistTotal_spec: "wishlistTotal ps its = spec_wishlistTotal ps its"
  unfolding wishlistTotal_def spec_wishlistTotal_def foldl_add_sum_list
  by (simp add: resolvedPrice_spec)

text \<open>
  C7: the item-count term of the score is \<open>min (10 * n) 40\<close> for a wishlist of
  \<open>n\<close> items. With no product in the store it is the whole contribution of the
  wishlist, and there the score is the capped sum of the term and the score of the
  lead without a wishlist; in any store the value term, between 0 and 30, comes on
  top. Appending one item never lowers the term (nor, with no product in the
  store, the score), and from 4 items on the term is exactly 40.
\<close>

theorem itemCountTerm_mono:
  "calculateLeadScore (db\<lparr>products := []\<rparr>) lead (Some w) customerId_arg =
     min (min (int (length (items w)) * 10) 40 + calculateLeadScore db lead None customerId_arg) 100 \<and>
   calculateLeadScore (db\<lparr>products := []\<rparr>) lead (Some w) customerId_arg \<le>
     calculateLeadScore (db\<lparr>products := []\<rparr>) lead (Some (w\<lparr>items := items w @ [item]\<rparr>))
       customerId_arg \<and>
   (4 \<le> length (items w) \<longrightarrow>
      calculateLeadScore (db\<lparr>products := []\<rparr>) lead (Some w) customerId_arg =
        min (40 + calculateLeadScore db lead None customerId_arg) 100) \<and>
   (\<exists>v. 0 \<le> v \<and> v \<le> 30 \<and>
      calculateLeadScore db lead (Some w) customerId_arg =
        min (min (int (length (items w)) * 10) 40 + v +
             calculateLeadScore db lead None customerId_arg) 100) \<and>
   itemCountTerm (Some w) = min (int (length (items w)) * 10) 40 \<and>
   itemCountTerm (Some w) \<le> itemCountTerm (Some (w\<lparr>items := items w @ [item]\<rparr>)) \<and>
   (4 \<le> length (items w) \<longrightarrow> itemCountTerm (Some w) = 40)"
proof -
  let ?base = "calculateLeadScore db lead None customerId_arg"
  have ict: "itemCountTerm (Some v) = min (int (length (items v)) * 10) 40" for v
    by (simp add: itemCountTerm_def)
  have gen: "calculateLeadScore d lead (Some v) customerId_arg =
      min (min (int (length (items v)) * 10) 40 + valueTerm d (Some v) +
           calculateLeadScore d lead None customerId_arg) 100" for d v
    unfolding calculateLeadScore_None
    unfolding calculateLeadScore_terms termsTotal_def ict by simp
  have noprod: "valueTerm (db\<lparr>products := []\<rparr>) (Some v) = 0" for v
    by (simp add: valueTerm_def wishlistTotal_spec spec_wishlistTotal_def)
  have samebase: "calculateLeadScore (db\<lparr>products := []\<rparr>) lead None customerId_arg = ?base"
    unfolding calculateLeadScore_None
    by (simp add: repeatTerm_def conversionTerm_def)
  have one: "calculateLeadScore (db\<lparr>products := []\<rparr>) lead (Some v) customerId_arg =
      min (min (int (length (items v)) * 10) 40 + ?base) 100" for v
    by (simp add: gen noprod samebase)
  have ex: "\<exists>v. 0 \<le> v \<and> v \<le> 30 \<and>
      calculateLeadScore db lead (Some w) customerId_arg =
        min (min (int (length (items w)) * 10) 40 + v + ?base) 100"
    using gen [of db w] valueTerm_bounds [of db "Some w"] by blast
  show ?thesis
    unfolding one ict using ex by auto
qed

theorem itemCountTerm_mono_witness:
  "4 \<le> length (items (ex_wishlist [''p250'', ''p400'', ''p600'', ''p1200''])) \<and>
   calculateLeadScore ex_db ex_lead None None = 25 \<and>
   calculateLeadScore (ex_db\<lparr>products := []\<rparr>) ex_lead
     (Some (ex_wishlist [''p250'', ''p400'', ''p600'', ''p1200''])) None = 65 \<and>
   calculateLeadScore (ex_db\<lparr>products := []\<rparr>) ex_lead (Some (ex_wishlist [''p250''])) None = 35 \<and>
   calculateLeadScore (ex_db\<lparr>products := []\<rparr>) ex_lead (Some (ex_wishlist [])) None = 25"
proof -
  have base: "calculateLeadScore ex_db ex_lead None None = 25"
    by (simp add: calculateLeadScore_terms term_defs Let_def truthy_def ex_defs)
  have len: "length (items (ex_wishlist pids)) = length pids" for pids
    by (simp add: ex_wishlist_def)
  from itemCountTerm_mono [of ex_db ex_lead "ex_wishlist [''p250'', ''p400'', ''p600'', ''p1200'']" None]
    itemCountTerm_mono [of ex_db ex_lead "ex_wishlist [''p250'']" None]
    itemCountTerm_mono [of ex_db ex_lead "ex_wishlist []" None]
    base
  show ?thesis by (simp add: len)
qed


section \<open>The value term on doubles\<close>

lemma foldl_map_fun: "foldl (\<lambda>a x. f a (g x)) a xs = foldl f a (map g xs)"
  by (induction xs arbitrary: a) simp_all

lemma value_cascade:
  "(if js_ge tot 10000 then 30
    else if js_ge tot 5000 then 25
    else if js_ge tot 2000 then 20
    else if js_ge tot 1000 then 15
    else if js_ge tot 500 then 10
    else if js_gt tot 0 then 5
    else 0) = spec_valueStep tot"
  by (cases tot) (simp_all add: spec_valueStep_def)

lemma resolved_Num:
  "(case find P ps of None \<Rightarrow> Num 0
    | Some product \<Rightarrow> if price product \<noteq> 0 then Num (price product) else Num 0) =
   (case find P ps of None \<Rightarrow> Num 0 | Some product \<Rightarrow> Num (price product))"
  by (simp split: option.split)

text \<open>The scorer on doubles is the capped sum of the same terms, but for the value term.\<close>

lemma calculateLeadScore_fp_Some:
  "calculateLeadScore_fp rnd db lead (Some w) cid =
     min ((if items w \<noteq> []
           then min (int (length (items w)) * 10) 40 +
                spec_valueStep (spec_summedPrices rnd (products db) (items w))
           else 0) +
          phoneTerm lead + messageTerm lead + sourceTerm lead + utmTerm lead +
          accountTerm (resolveCustomerId cid lead) +
          repeatTerm db lead (resolveCustomerId cid lead) +
          conversionTerm db lead (resolveCustomerId cid lead)) 100"
  unfolding calculateLeadScore_fp_def phoneTerm_def messageTerm_def sourceTerm_def
    utmTerm_def accountTerm_def repeatTerm_def conversionTerm_def resolveCustomerId_def
    spec_summedPrices_def value_cascade [symmetric] foldl_map_fun [symmetric]
    resolved_Num
  by (simp add: Let_def if_add_then if_add_both if_add_same
        split del: if_split cong: if_cong)

lemma calculateLeadScore_fp_None:
  "calculateLeadScore_fp rnd db lead None cid = calculateLeadScore db lead None cid"
proof -
  have "calculateLeadScore_fp rnd db lead None cid =
     min (phoneTerm lead + messageTerm lead + sourceTerm lead + utmTerm lead +
          accountTerm (resolveCustomerId cid lead) +
          repeatTerm db lead (resolveCustomerId cid lead) +
          conversionTerm db lead (resolveCustomerId cid lead)) 100"
    unfolding calculateLeadScore_fp_def phoneTerm_def messageTerm_def sourceTerm_def
      utmTerm_def accountTerm_def repeatTerm_def conversionTerm_def resolveCustomerId_def
    by (simp add: Let_def if_add_then if_add_both if_add_same
          split del: if_split cong: if_cong)
  then show ?thesis
    by (simp add: calculateLeadScore_terms termsTotal_def itemCountTerm_def valueTerm_def)
qed

text \<open>With exact arithmetic the two scorers and the two totals agree.\<close>

lemma js_add_Num:
  "foldl (js_add Num) (Num a) (map (\<lambda>x. Num (g x)) xs) = Num (a + sum_list (map g xs))"
  by (induction xs arbitrary: a) simp_all

lemma case_Num:
  "(case x of None \<Rightarrow> Num 0 | Some product \<Rightarrow> Num (price product)) =
   Num (case x of None \<Rightarrow> 0 | Some product \<Rightarrow> price product)"
  by (simp split: option.split)

lemma spec_summedPrices_exact:
  "spec_summedPrices Num ps its = Num (spec_wishlistTotal ps its)"
  by (simp add: spec_summedPrices_def spec_wishlistTotal_def case_Num js_add_Num)

lemma calculateLeadScore_fp_exact:
  "calculateLeadScore_fp Num db lead wishlist cid = calculateLeadScore db lead wishlist cid"
proof (cases wishlist)
  case None
  then show ?thesis by (simp add: calculateLeadScore_fp_None)
next
  case (Some w)
  have "spec_valueStep (Num (spec_wishlistTotal (products db) (items w))) =
        (let total = wishlistTotal (products db) (items w)
         in if total \<ge> 10000 then 30
            else if total \<ge> 5000 then 25
            else if total \<ge> 2000 then 20
            else if total \<ge> 1000 then 15
            else if total \<ge> 500 then 10
            else if total > 0 then 5
            else 0)"
    by (simp add: spec_valueStep_def wishlistTotal_spec Let_def)
  then show ?thesis
    unfolding Some calculateLeadScore_fp_Some calculateLeadScore_terms termsTotal_def
      itemCountTerm_def valueTerm_def spec_summedPrices_exact
    by simp
qed



section \<open>Fields that the scorer does not read\<close>

lemma termsTotal_ignores:
  "termsTotal db (lead\<lparr>utmMedium := m, score := s\<rparr>) wishlist cid =
   termsTotal db lead wishlist cid"
  unfolding termsTotal_def phoneTerm_def messageTerm_def sourceTerm_def utmTerm_def
    repeatTerm_def conversionTerm_def resolveCustomerId_def
  by (simp split del: if_split cong: if_cong)

text \<open>
  C10: two leads that differ at most in \<open>utmMedium\<close> and in their incoming
  \<open>score\<close> get the same result from \<open>calculateLeadScore\<close>, for the same wishlist,
  customer id argument and state of the store.
\<close>

theorem calculateLeadScore_ignores_utmMedium_score:
  assumes "lead2 = lead1\<lparr>utmMedium := utmMedium lead2, score := score lead2\<rparr>"
  shows "calculateLeadScore db lead1 wishlist customerId_arg =
         calculateLeadScore db lead2 wishlist customerId_arg"
proof -
  have "calculateLeadScore db lead2 wishlist customerId_arg =
     calculateLeadScore db (lead1\<lparr>utmMedium := utmMedium lead2, score := score lead2\<rparr>)
          wishlist customerId_arg"
    by (rule arg_cong [OF assms])
  also have "\<dots> = calculateLeadScore db lead1 wishlist customerId_arg"
    by (simp only: calculateLeadScore_terms termsTotal_ignores)
  finally show ?thesis by (rule sym)
qed

theorem calculateLeadScore_ignores_utmMedium_score_witness:
  "ex_lead\<lparr>utmMedium := Some ''email'', score := 55\<rparr> =
     ex_lead\<lparr>utmMedium := utmMedium (ex_lead\<lparr>utmMedium := Some ''email'', score := 55\<rparr>),
             score := score (ex_lead\<lparr>utmMedium := Some ''email'', score := 55\<rparr>)\<rparr> \<and>
   calculateLeadScore ex_db ex_lead (Some (ex_wishlist [''p400''])) None =
   calculateLeadScore ex_db (ex_lead\<lparr>utmMedium := Some ''email'', score := 55\<rparr>)
     (Some (ex_wishlist [''p400''])) None"
  using calculateLeadScore_ignores_utmMedium_score
    [of "ex_lead\<lparr>utmMedium := Some ''email'', score := 55\<rparr>" ex_lead ex_db
        "Some (ex_wishlist [''p400''])" None]
  by simp

section \<open>The scenarios of the specification\<close>

text \<open>
  C4: a lead with a non-empty phone, a message of exactly 25 characters, source
  WISHLIST, no UTM field and no customer id (none passed, none on the lead), with a
  wishlist of 3 items whose resolved prices sum to 1200, in a store where no other
  lead has its email, scores exactly 70, and 70 is in the Hot band.
\<close>

theorem scenario_hot_lead:
  assumes "truthy (phone lead)"
    and "message lead = Some m" and "length m = 25"
    and "source lead = ''WISHLIST''"
    and "utmSource lead = None" and "utmMedium lead = None" and "utmCampaign lead = None"
    and "customerId lead = None"
    and "length (items w) = 3"
    and "spec_wishlistTotal (products db) (items w) = 1200"
    and "\<forall>l \<in> set (leads db). lead_id l \<noteq> lead_id lead \<longrightarrow> email l \<noteq> email lead"
  shows "calculateLeadScore db lead (Some w) None = 70 \<and>
         getLeadCategory (calculateLeadScore db lead (Some w) None) = ''Hot Lead''"
proof -
  have rid: "resolveCustomerId None lead = None"
    using assms(8) by (simp add: resolveCustomerId_def truthy_None)
  have "m \<noteq> []" using assms(3) by auto
  then have msg: "messageTerm lead = 10"
    using assms(2,3) by (simp add: messageTerm_def)
  have cnt: "itemCountTerm (Some w) = 30"
    using assms(9) by (simp add: itemCountTerm_def)
  have val: "valueTerm db (Some w) = 15"
    using assms(9,10) by (simp add: valueTerm_def wishlistTotal_spec)
  have ph: "phoneTerm lead = 10" using assms(1) by (simp add: phoneTerm_def)
  have src: "sourceTerm lead = 5" using assms(4) by (simp add: sourceTerm_def)
  have utm: "utmTerm lead = 0" using assms(5,7) by (simp add: utmTerm_def truthy_None)
  have acc: "accountTerm None = 0" by (simp add: accountTerm_def truthy_None)
  have nosib: "filter (\<lambda>l. lead_id l \<noteq> lead_id lead \<and> email l = email lead) (leads db) = []"
    using assms(11) by (auto simp: filter_empty_conv)
  have rep: "repeatTerm db lead None = 0"
    by (simp add: repeatTerm_def truthy_None nosib)
  have conv: "conversionTerm db lead None = 0"
    using assms(11) by (auto simp: conversionTerm_def truthy_None list_ex_iff)
  have "termsTotal db lead (Some w) None = 70"
    by (simp add: termsTotal_def rid msg cnt val ph src utm acc rep conv)
  then show ?thesis
    by (simp add: calculateLeadScore_terms getLeadCategory_def)
qed

theorem scenario_hot_lead_witness:
  "truthy (phone ex_lead) \<and> message ex_lead = Some ''I would like these rings.'' \<and>
   length ''I would like these rings.'' = 25 \<and> source ex_lead = ''WISHLIST'' \<and>
   length (items (ex_wishlist [''p400'', ''p400'', ''p400''])) = 3 \<and>
   spec_wishlistTotal (products ex_db) (items (ex_wishlist [''p400'', ''p400'', ''p400''])) = 1200 \<and>
   calculateLeadScore ex_db ex_lead (Some (ex_wishlist [''p400'', ''p400'', ''p400''])) None = 70 \<and>
   getLeadCategory
     (calculateLeadScore ex_db ex_lead (Some (ex_wishlist [''p400'', ''p400'', ''p400''])) None) =
     ''Hot Lead''"
proof -
  have h: "truthy (phone ex_lead)" "message ex_lead = Some ''I would like these rings.''"
    "length ''I would like these rings.'' = 25" "source ex_lead = ''WISHLIST''"
    "utmSource ex_lead = None" "utmMedium ex_lead = None" "utmCampaign ex_lead = None"
    "customerId ex_lead = None"
    "length (items (ex_wishlist [''p400'', ''p400'', ''p400''])) = 3"
    by (simp_all add: ex_lead_def ex_wishlist_def truthy_def)
  have e: "\<forall>l \<in> set (leads ex_db). lead_id l \<noteq> lead_id ex_lead \<longrightarrow> email l \<noteq> email ex_lead"
    by (simp add: ex_defs)
  from scenario_hot_lead [OF h ex_total(8) e] h ex_total(8) show ?thesis by blast
qed

text \<open>
  C6: when the customer id resolved for a lead (the argument if it is truthy, the
  lead's own otherwise) is truthy, exactly 2 other leads of the store carry that
  customer id, no other lead matches by email only, and one of the two has status
  CONVERTED, the customer-account, repeat-contact and historical-conversion terms
  add exactly 8 + 6 + 10 = 24 to the score: the score is the capped sum of 24 and
  the score of the same lead without customer id in a store without leads. With the
  other leads removed only the 8 of the account remain, and with no lead CONVERTED
  the 8 and the 6.
\<close>

theorem scenario_customer_terms:
  assumes "rid = (if truthy customerId_arg then customerId_arg else customerId lead)"
    and "truthy rid"
    and "length (filter (\<lambda>l. lead_id l \<noteq> lead_id lead \<and> customerId l = rid) (leads db)) = 2"
    and "\<forall>l \<in> set (leads db).
           lead_id l \<noteq> lead_id lead \<and> email l = email lead \<longrightarrow> customerId l = rid"
    and "\<exists>l \<in> set (leads db).
           lead_id l \<noteq> lead_id lead \<and> customerId l = rid \<and> status l = ''CONVERTED''"
  shows "calculateLeadScore db lead wishlist customerId_arg =
           min (calculateLeadScore (db\<lparr>leads := []\<rparr>) (lead\<lparr>customerId := None\<rparr>) wishlist None +
                24) 100 \<and>
         calculateLeadScore (db\<lparr>leads := []\<rparr>) lead wishlist customerId_arg =
           min (calculateLeadScore (db\<lparr>leads := []\<rparr>) (lead\<lparr>customerId := None\<rparr>) wishlist None +
                8) 100 \<and>
         calculateLeadScore (db\<lparr>leads := map (\<lambda>l. l\<lparr>status := ''LOST''\<rparr>) (leads db)\<rparr>) lead wishlist
             customerId_arg =
           min (calculateLeadScore (db\<lparr>leads := []\<rparr>) (lead\<lparr>customerId := None\<rparr>) wishlist None +
                (8 + 6)) 100 \<and>
         accountTerm rid = 8 \<and> repeatTerm db lead rid = 6 \<and> conversionTerm db lead rid = 10"
proof -
  have r: "resolveCustomerId customerId_arg lead = rid"
    using assms(1) by (simp add: resolveCustomerId_def)
  have acc: "accountTerm rid = 8" using assms(2) by (simp add: accountTerm_def)
  have "filter (\<lambda>l. lead_id l \<noteq> lead_id lead \<and>
                     ((truthy rid \<and> customerId l = rid) \<or> email l = email lead)) (leads db) =
        filter (\<lambda>l. lead_id l \<noteq> lead_id lead \<and> customerId l = rid) (leads db)"
    using assms(2,4) by (intro filter_cong) auto
  then have rep: "repeatTerm db lead rid = 6"
    using assms(2,3) by (auto simp: repeatTerm_def Let_def)
  have conv: "conversionTerm db lead rid = 10"
    using assms(2,5) by (auto simp: conversionTerm_def list_ex_iff)
  have z: "repeatTerm (db\<lparr>leads := []\<rparr>) lead rid = 0"
    "conversionTerm (db\<lparr>leads := []\<rparr>) lead rid = 0"
    by (simp_all add: repeatTerm_def conversionTerm_def)
  note z = z valueTerm_leads [where ls = "[]"]
  have full: "calculateLeadScore db lead wishlist customerId_arg =
      min (calculateLeadScore (db\<lparr>leads := []\<rparr>) (lead\<lparr>customerId := None\<rparr>) wishlist None + 24) 100"
    unfolding calculateLeadScore_anonymous
    unfolding calculateLeadScore_terms termsTotal_def r acc rep conv by simp
  have part: "calculateLeadScore (db\<lparr>leads := []\<rparr>) lead wishlist customerId_arg =
      min (calculateLeadScore (db\<lparr>leads := []\<rparr>) (lead\<lparr>customerId := None\<rparr>) wishlist None + 8) 100"
    unfolding calculateLeadScore_anonymous
    unfolding calculateLeadScore_terms termsTotal_def r acc z by simp
  have rep': "repeatTerm (db\<lparr>leads := map (\<lambda>l. l\<lparr>status := ''LOST''\<rparr>) (leads db)\<rparr>) lead rid = 6"
    using rep by (simp add: repeatTerm_status)
  have conv': "conversionTerm (db\<lparr>leads := map (\<lambda>l. l\<lparr>status := ''LOST''\<rparr>) (leads db)\<rparr>) lead rid = 0"
    by (simp add: conversionTerm_def list_ex_iff)
  have nostatus: "calculateLeadScore (db\<lparr>leads := map (\<lambda>l. l\<lparr>status := ''LOST''\<rparr>) (leads db)\<rparr>) lead wishlist
             customerId_arg =
      min (calculateLeadScore (db\<lparr>leads := []\<rparr>) (lead\<lparr>customerId := None\<rparr>) wishlist None + (8 + 6)) 100"
    unfolding calculateLeadScore_anonymous
    unfolding calculateLeadScore_terms termsTotal_def r acc rep' conv' valueTerm_leads by simp
  from full part nostatus acc rep conv show ?thesis by simp
qed

theorem scenario_customer_terms_witness:
  "truthy (Some ''cust-1'') \<and>
   length (filter (\<lambda>l. lead_id l \<noteq> lead_id ex_lead \<and> customerId l = Some ''cust-1'')
                  (leads ex_db)) = 2 \<and>
   calculateLeadScore (ex_db\<lparr>leads := []\<rparr>) ex_lead None None = 25 \<and>
   calculateLeadScore ex_db ex_lead None (Some ''cust-1'') = 49 \<and>
   calculateLeadScore ex_db (ex_lead\<lparr>customerId := Some ''cust-1''\<rparr>) None None = 49"
proof -
  let ?lead2 = "ex_lead\<lparr>customerId := Some ''cust-1''\<rparr>"
  have t: "truthy (Some ''cust-1'')" by (simp add: truthy_def)
  have r1: "Some ''cust-1'' =
      (if truthy (Some ''cust-1'') then Some ''cust-1'' else customerId ex_lead)"
    by (simp add: truthy_def)
  have r2: "Some ''cust-1'' = (if truthy None then None else customerId ?lead2)"
    by (simp add: truthy_def)
  have n: "length (filter (\<lambda>l. lead_id l \<noteq> lead_id ex_lead \<and> customerId l = Some ''cust-1'')
                  (leads ex_db)) = 2"
    by (simp add: ex_defs)
  have e: "\<forall>l \<in> set (leads ex_db).
      lead_id l \<noteq> lead_id ex_lead \<and> email l = email ex_lead \<longrightarrow> customerId l = Some ''cust-1''"
    by (simp add: ex_defs)
  have c: "\<exists>l \<in> set (leads ex_db).
      lead_id l \<noteq> lead_id ex_lead \<and> customerId l = Some ''cust-1'' \<and> status l = ''CONVERTED''"
    by (simp add: ex_defs)
  have n2: "length (filter (\<lambda>l. lead_id l \<noteq> lead_id ?lead2 \<and> customerId l = Some ''cust-1'')
                  (leads ex_db)) = 2"
    using n by simp
  have e2: "\<forall>l \<in> set (leads ex_db).
      lead_id l \<noteq> lead_id ?lead2 \<and> email l = email ?lead2 \<longrightarrow> customerId l = Some ''cust-1''"
    using e by simp
  have c2: "\<exists>l \<in> set (leads ex_db).
      lead_id l \<noteq> lead_id ?lead2 \<and> customerId l = Some ''cust-1'' \<and> status l = ''CONVERTED''"
    using c by simp
  have same: "?lead2\<lparr>customerId := None\<rparr> = ex_lead\<lparr>customerId := None\<rparr>"
    "ex_lead\<lparr>customerId := None\<rparr> = ex_lead"
    by (simp_all add: ex_lead_def)
  have base: "calculateLeadScore (ex_db\<lparr>leads := []\<rparr>) ex_lead None None = 25"
    by (simp add: calculateLeadScore_terms term_defs Let_def truthy_def ex_defs)
  from scenario_customer_terms [OF r1 t n e c, of None]
    scenario_customer_terms [OF r2 t n2 e2 c2, of None] same base t n
  show ?thesis by simp
qed


section \<open>The breakdown against the score\<close>

lemma sum_values_update_fresh:
  "k \<notin> fst ` set b \<Longrightarrow> sum_values (AList.update k v b) = sum_values b + v"
  by (induction b) (auto simp: sum_values_def)

lemma tracks_Nil: "tracks [] 0 {}"
  by (simp add: tracks_def sum_values_def)

lemma tracks_put_if:
  assumes "tracks b n K" and "c \<Longrightarrow> k \<notin> K"
  shows "tracks (put_if c k v b) (n + (if c then v else 0)) (insert k K)"
proof (cases c)
  case True
  with assms have "k \<notin> fst ` set b" by (auto simp: tracks_def)
  with assms True show ?thesis
    by (auto simp: tracks_def put_if_def sum_values_update_fresh dom_update)
next
  case False
  with assms show ?thesis by (auto simp: tracks_def put_if_def)
qed

lemma tracks_sum: "tracks b n K \<Longrightarrow> n = m \<Longrightarrow> sum_values b = m"
  by (simp add: tracks_def)

lemma put_if_fold1: "(if c then AList.update k v b else b) = put_if c k v b"
  by (simp add: put_if_def)

lemma put_if_fold2:
  "(if c then AList.update k v b else put_if c' k' v' b) =
   put_if (c \<or> c') (if c then k else k') (if c then v else v') b"
  by (simp add: put_if_def)

lemma put_if_fold3:
  "(if c then put_if c' k v (AList.update k0 v0 b) else b) =
   put_if (c \<and> c') k v (put_if c k0 v0 b)"
  by (simp add: put_if_def)

lemma put_if_fold4:
  "(if c then put_if c1 k1 v1 (put_if c2 k2 v2 b) else b) =
   put_if (c \<and> c1) k1 v1 (put_if (c \<and> c2) k2 v2 b)"
  by (simp add: put_if_def)

lemma sum_values_breakdown_Some:
  "sum_values (getScoreBreakdown db lead (Some w)) = termsTotal db lead (Some w) None"
  unfolding getScoreBreakdown_def
  apply (simp add: Let_def put_if_fold1 put_if_fold2 put_if_fold3 put_if_fold4
      split del: if_split cong: if_cong)
  apply (rule tracks_sum)
   apply (rule tracks_put_if)+
           apply (rule tracks_Nil)
          apply (simp_all add: term_defs Let_def truthy_None)
  done

lemma sum_values_breakdown_None:
  "sum_values (getScoreBreakdown db lead None) = termsTotal db lead None None"
  unfolding getScoreBreakdown_def
  apply (simp add: Let_def put_if_fold1 put_if_fold2 put_if_fold3 put_if_fold4
      split del: if_split cong: if_cong)
  apply (rule tracks_sum)
   apply (rule tracks_put_if)+
         apply (rule tracks_Nil)
        apply (simp_all add: term_defs Let_def truthy_None)
  done

lemma sum_values_breakdown:
  "sum_values (getScoreBreakdown db lead wishlist) = termsTotal db lead wishlist None"
  by (cases wishlist) (simp_all add: sum_values_breakdown_None sum_values_breakdown_Some)

text \<open>
  C2 (as the code has it): for every lead, wishlist and state of the store, the sum
  of the values of \<open>getScoreBreakdown lead wishlist\<close>, capped at 100, equals
  \<open>calculateLeadScore lead wishlist\<close> called without a customer id argument. The
  breakdown lists the terms before the cap, so the sum itself equals the score
  exactly when it does not exceed 100.
\<close>

theorem breakdown_sum_capped:
  "min (sum_values (getScoreBreakdown db lead wishlist)) 100 =
   calculateLeadScore db lead wishlist None"
  by (simp add: sum_values_breakdown calculateLeadScore_terms)

theorem breakdown_sum_capped_witness:
  "min (sum_values (getScoreBreakdown ex_db ex_lead
          (Some (ex_wishlist [''p400'', ''p400'', ''p400''])))) 100 =
     calculateLeadScore ex_db ex_lead (Some (ex_wishlist [''p400'', ''p400'', ''p400''])) None \<and>
   sum_values (getScoreBreakdown ex_db ex_lead
          (Some (ex_wishlist [''p400'', ''p400'', ''p400'']))) = 70"
proof -
  have "termsTotal ex_db ex_lead (Some (ex_wishlist [''p400'', ''p400'', ''p400''])) None = 70"
    by (simp add: term_defs Let_def truthy_def ex_defs)
  with breakdown_sum_capped [of ex_db ex_lead "Some (ex_wishlist [''p400'', ''p400'', ''p400''])"]
  show ?thesis by (simp add: sum_values_breakdown)
qed

text \<open>
  C2 as stated fails: without the cap the sum of the breakdown is not the score. For
  the customer of \<open>cx_lead\<close> the breakdown sums to 108 and the score is 100.
\<close>

theorem breakdown_sum_counterexample:
  "sum_values (getScoreBreakdown cx_db cx_lead (Some cx_wishlist)) = 108 \<and>
   calculateLeadScore cx_db cx_lead (Some cx_wishlist) None = 100 \<and>
   sum_values (getScoreBreakdown cx_db cx_lead (Some cx_wishlist)) \<noteq>
   calculateLeadScore cx_db cx_lead (Some cx_wishlist) None"
  by (simp add: sum_values_breakdown calculateLeadScore_terms cx_total)

section \<open>The admin lead routes\<close>

lemma LeadStatus_QUALIFIED: "map_of LeadStatus ''QUALIFIED'' = None"
  by (simp add: LeadStatus_def)

text \<open>
  C9: when the status of every lead is one of NEW, CONTACTED, SCHEDULED, CONVERTED
  and LOST, the count \<open>qualified\<close> of the statistics is 0: the enum has no member
  QUALIFIED, so the value compared against is undefined.
\<close>

theorem stats_qualified_zero:
  assumes "\<forall>l \<in> set ls.
             status l \<in> {''NEW'', ''CONTACTED'', ''SCHEDULED'', ''CONVERTED'', ''LOST''}"
  shows "map_of LeadStatus ''QUALIFIED'' = None \<and> stats_qualified (leadStats ls) = 0"
  by (simp add: leadStats_def LeadStatus_QUALIFIED)

theorem stats_qualified_zero_witness:
  "map status ex_leads = [''CONVERTED'', ''CONTACTED'', ''NEW''] \<and>
   stats_qualified (leadStats ex_leads) = 0"
proof -
  have m: "map status ex_leads = [''CONVERTED'', ''CONTACTED'', ''NEW'']"
    by (simp add: ex_leads_def ex_sibling_def)
  have h: "\<forall>l \<in> set ex_leads.
      status l \<in> {''NEW'', ''CONTACTED'', ''SCHEDULED'', ''CONVERTED'', ''LOST''}"
    by (simp add: ex_leads_def ex_sibling_def)
  from stats_qualified_zero [OF h] m show ?thesis by blast
qed

lemma findIndex_Some:
  "findIndex P xs = Some n \<Longrightarrow> n < length xs \<and> P (xs ! n) \<and> find P xs = Some (xs ! n)"
proof (induction xs arbitrary: n)
  case Nil
  then show ?case by simp
next
  case (Cons x xs)
  show ?case
  proof (cases "P x")
    case True
    with Cons.prems show ?thesis by simp
  next
    case False
    with Cons.prems obtain m where m: "findIndex P xs = Some m" and n: "n = Suc m"
      by auto
    from Cons.IH [OF m] False n show ?thesis by simp
  qed
qed

lemma find_findIndex: "find P xs = Some x \<Longrightarrow> \<exists>n. findIndex P xs = Some n"
  by (induction xs) (auto split: if_splits)


text \<open>
  What \<open>put_lead\<close> does for a lead that exists, whatever the body: the lead found
  is overwritten in place with the properties of the body and a new \<open>updatedAt\<close>.
\<close>

lemma put_lead_existing:
  assumes "db_getById ls i = Some l"
  shows "\<exists>n. findIndex (\<lambda>item. item ''id'' = Some (JStr i)) ls = Some n \<and>
           n < length ls \<and> ls ! n = l \<and>
           put_lead now ls i updates =
             (ls[n := (l ++ updates)(''updatedAt'' \<mapsto> JStr now)],
              Inr (Some ((l ++ updates)(''updatedAt'' \<mapsto> JStr now))))"
proof -
  let ?P = "\<lambda>item. item ''id'' = Some (JStr i)"
  from assms have f: "find ?P ls = Some l" by (simp add: db_getById_def)
  then obtain n where n: "findIndex ?P ls = Some n"
    using find_findIndex by fastforce
  from findIndex_Some [OF n] f have len: "n < length ls" and nth: "ls ! n = l"
    by simp_all
  have "db_update now ls i updates =
          (ls[n := (l ++ updates)(''updatedAt'' \<mapsto> JStr now)],
           Some ((l ++ updates)(''updatedAt'' \<mapsto> JStr now)))"
    using n len nth by (simp add: db_update_def Let_def)
  with assms have "put_lead now ls i updates =
             (ls[n := (l ++ updates)(''updatedAt'' \<mapsto> JStr now)],
              Inr (Some ((l ++ updates)(''updatedAt'' \<mapsto> JStr now))))"
    by (simp add: put_lead_def)
  with n len nth show ?thesis by (intro exI [where x = n]) simp
qed

text \<open>
  A \<open>score\<close> property in the body, should one reach the handler, is written to
  the record like any other property; the handler itself computes no score.
\<close>

lemma put_lead_score:
  assumes "db_getById ls i = Some l"
    and "put_lead now ls i updates = (ls', Inr (Some l'))"
  shows "l' ''score'' = (case updates ''score'' of None \<Rightarrow> l ''score'' | Some v \<Rightarrow> Some v)"
proof -
  from put_lead_existing [OF assms(1), of now updates] assms(2)
  have "l' = (l ++ updates)(''updatedAt'' \<mapsto> JStr now)" by auto
  then show ?thesis by (simp add: map_add_def split: option.split)
qed



section \<open>The category bands\<close>

text \<open>
  C5: \<open>getLeadCategory\<close> is defined on every integer; scores 0 to 30 are in the
  Cold band, 31 to 60 in the Warm band and 61 to 100 in the Hot band, the three
  labels are pairwise distinct, and an input below 0 or above 100 is mapped to one
  of the three labels as well (Cold below 0, Hot above 100).
\<close>

theorem getLeadCategory_bands:
  "(0 \<le> s \<and> s \<le> 30 \<longrightarrow> getLeadCategory s = ''Cold Lead'') \<and>
   (31 \<le> s \<and> s \<le> 60 \<longrightarrow> getLeadCategory s = ''Warm Lead'') \<and>
   (61 \<le> s \<and> s \<le> 100 \<longrightarrow> getLeadCategory s = ''Hot Lead'') \<and>
   (s < 0 \<longrightarrow> getLeadCategory s = ''Cold Lead'') \<and>
   (100 < s \<longrightarrow> getLeadCategory s = ''Hot Lead'') \<and>
   getLeadCategory s \<in> {''Cold Lead'', ''Warm Lead'', ''Hot Lead''} \<and>
   ''Cold Lead'' \<noteq> ''Warm Lead'' \<and> ''Warm Lead'' \<noteq> ''Hot Lead'' \<and>
   ''Cold Lead'' \<noteq> ''Hot Lead''"
  by (simp add: getLeadCategory_def)

theorem getLeadCategory_bands_witness:
  "getLeadCategory 0 = ''Cold Lead'' \<and> getLeadCategory 30 = ''Cold Lead'' \<and>
   getLeadCategory 31 = ''Warm Lead'' \<and> getLeadCategory 60 = ''Warm Lead'' \<and>
   getLeadCategory 61 = ''Hot Lead'' \<and> getLeadCategory 100 = ''Hot Lead'' \<and>
   getLeadCategory (- 5) = ''Cold Lead'' \<and> getLeadCategory 150 = ''Hot Lead''"
  using getLeadCategory_bands [of 0] getLeadCategory_bands [of 30]
    getLeadCategory_bands [of 31] getLeadCategory_bands [of 60]
    getLeadCategory_bands [of 61] getLeadCategory_bands [of 100]
    getLeadCategory_bands [of "- 5"] getLeadCategory_bands [of 150]
  by simp

end
